theory Spec2Isabelle
  imports Complex_Main "HOL-Library.AList" "HOL-Library.Multiset" "HOL-Library.Word"
begin

section \<open>Python strings as used by app.py\<close>

text \<open>
  Four string operations of the source matter: \<open>str.split("-")\<close>, \<open>"-".join\<close>,
  \<open>str.capitalize\<close> and \<open>str.strip\<close>. Names and labels (voice names, language codes,
  enumerant names, display names) are HOL \<open>string\<close>s, read as the UTF-8 bytes of the
  Python \<open>str\<close>: splitting at the ASCII hyphen, joining and comparing give the same
  result on the bytes as on the code points. The text typed by the user is a list of
  code points, since \<open>strip\<close> depends on which code points are whitespace.
\<close>

type_synonym unicode = "nat list"

text \<open>\<open>s.split(sep)\<close> for a one-character separator: never an empty list, empty
  segments are kept.\<close>

fun py_split :: "char \<Rightarrow> string \<Rightarrow> string list" where
  "py_split sep [] = [[]]"
| "py_split sep (c # cs) =
     (if c = sep then [] # py_split sep cs
      else (case py_split sep cs of
              [] \<Rightarrow> [[c]]
            | seg # segs \<Rightarrow> (c # seg) # segs))"

text \<open>\<open>sep.join(parts)\<close>.\<close>

fun py_join :: "string \<Rightarrow> string list \<Rightarrow> string" where
  "py_join sep [] = []"
| "py_join sep [p] = p"
| "py_join sep (p # q # ps) = p @ sep @ py_join sep (q # ps)"

text \<open>Case mapping of the ASCII letters; every other character is left as it is. The
  source applies \<open>capitalize\<close> only to enumerant names, which are ASCII identifiers.\<close>

definition ascii_upper :: "char \<Rightarrow> char" where
  "ascii_upper c =
     (case map_of (zip ''abcdefghijklmnopqrstuvwxyz'' ''ABCDEFGHIJKLMNOPQRSTUVWXYZ'') c of
        Some d \<Rightarrow> d | None \<Rightarrow> c)"

definition ascii_lower :: "char \<Rightarrow> char" where
  "ascii_lower c =
     (case map_of (zip ''ABCDEFGHIJKLMNOPQRSTUVWXYZ'' ''abcdefghijklmnopqrstuvwxyz'') c of
        Some d \<Rightarrow> d | None \<Rightarrow> c)"

text \<open>\<open>s.capitalize()\<close>: first character upper-cased, all others lower-cased.\<close>

fun capitalize :: "string \<Rightarrow> string" where
  "capitalize [] = []"
| "capitalize (c # cs) = ascii_upper c # map ascii_lower cs"

text \<open>\<open>str.isspace\<close> on one code point: TAB, LF, VT, FF, CR, the separators 28 to 31,
  SPACE, NEL (U+0085), NBSP (U+00A0), U+1680, U+2000 to U+200A, U+2028, U+2029,
  U+202F, U+205F and U+3000.\<close>

definition py_isspace :: "nat \<Rightarrow> bool" where
  "py_isspace c =
     (c \<in> {9, 10, 11, 12, 13, 28, 29, 30, 31, 32, 133, 160, 5760,
             8192, 8193, 8194, 8195, 8196, 8197, 8198, 8199, 8200, 8201, 8202,
             8232, 8233, 8239, 8287, 12288})"

text \<open>\<open>s.strip()\<close>: whitespace removed at both ends.\<close>

definition py_strip :: "unicode \<Rightarrow> unicode" where
  "py_strip s = rev (dropWhile py_isspace (rev (dropWhile py_isspace s)))"


section \<open>Provider data\<close>

text \<open>Exceptions that can occur inside the two \<open>try\<close> blocks: an index out of range,
  a missing dictionary key, the \<open>ValueError\<close> of an enumeration called with a number
  that is none of its members, an exception raised by a constructor of a request
  message (with its message), and a failure of a provider call (with its message).\<close>

datatype exn =
    IndexError
  | KeyError
  | ValueError
  | MessageError string
  | ProviderError string

text \<open>The provider's \<open>SsmlVoiceGender\<close> enumeration, the \<open>name\<close> attribute of its
  members, and the call \<open>SsmlVoiceGender(n)\<close> on the number that a voice carries: the
  member with that number, \<open>ValueError\<close> when there is none.\<close>

datatype SsmlVoiceGender = SSML_VOICE_GENDER_UNSPECIFIED | MALE | FEMALE | NEUTRAL

fun gender_name :: "SsmlVoiceGender \<Rightarrow> string" where
  "gender_name SSML_VOICE_GENDER_UNSPECIFIED = ''SSML_VOICE_GENDER_UNSPECIFIED''"
| "gender_name MALE = ''MALE''"
| "gender_name FEMALE = ''FEMALE''"
| "gender_name NEUTRAL = ''NEUTRAL''"

definition to_SsmlVoiceGender :: "int \<Rightarrow> exn + SsmlVoiceGender" where
  "to_SsmlVoiceGender n =
     (if n = 0 then Inr SSML_VOICE_GENDER_UNSPECIFIED
      else if n = 1 then Inr MALE
      else if n = 2 then Inr FEMALE
      else if n = 3 then Inr NEUTRAL
      else Inl ValueError)"

text \<open>One voice of the \<open>list_voices\<close> response; \<open>ssml_gender\<close> is the enumeration
  number that the response carries.\<close>

record voice =
  name :: string
  language_codes :: "string list"
  ssml_gender :: int

type_synonym bytes = "8 word list"

text \<open>The members of the library's \<open>AudioEncoding\<close> enumeration.\<close>

datatype AudioEncoding =
    AUDIO_ENCODING_UNSPECIFIED
  | LINEAR16
  | MP3
  | OGG_OPUS
  | MULAW
  | ALAW
  | PCM
  | M4A

text \<open>What \<open>client.synthesize_speech\<close> is called with: the synthesis input, the voice
  selection parameters and the audio configuration. The speaking rate and the pitch
  are numbers that the source passes on as it gets them, without arithmetic.\<close>

record synthesis_request =
  req_text :: unicode
  req_name :: string
  req_language_code :: string
  req_audio_encoding :: AudioEncoding
  req_speaking_rate :: real
  req_pitch :: real

text \<open>The client library and the service behind it are a parameter. Its \<open>n\<close>-th
  \<open>list_voices\<close> call answers \<open>list_voices_response n\<close>, and a synthesis call answers
  by the number of earlier synthesis calls and the request. The constructors
  \<open>SynthesisInput\<close>, \<open>VoiceSelectionParams\<close> and \<open>AudioConfig\<close> build a message from
  their arguments or raise: the three \<open>raises\<close> fields give the exception, \<open>None\<close>
  when the message is built.\<close>

record provider =
  list_voices_response :: "nat \<Rightarrow> exn + voice list"
  synthesis_input_raises :: "unicode \<Rightarrow> exn option"
  voice_selection_params_raises :: "string \<Rightarrow> string \<Rightarrow> exn option"
  audio_config_raises :: "AudioEncoding \<Rightarrow> real \<Rightarrow> real \<Rightarrow> exn option"
  synthesize_response :: "nat \<Rightarrow> synthesis_request \<Rightarrow> exn + bytes"

text \<open>What the page shows: \<open>st.error\<close> with a fixed prefix and the exception, or with a
  fixed text, \<open>st.warning\<close>, \<open>st.success\<close>, the audio player and the download button.\<close>

datatype ui_event =
    St_error_exn string exn
  | St_error string
  | St_warning string
  | St_success string
  | St_audio bytes
  | St_download_button bytes

text \<open>A dictionary from language code to its list of \<open>(name, display_name)\<close> pairs, in
  insertion order of the keys.\<close>

type_synonym catalog = "(string \<times> (string \<times> string) list) list"

text \<open>The process: how many \<open>list_voices\<close> calls were issued, the synthesis requests
  sent, the messages shown, and the cell of \<open>st.cache_data\<close> for \<open>get_voices\<close>.\<close>

record world =
  list_calls :: nat
  synth_calls :: "synthesis_request list"
  ui :: "ui_event list"
  voices_cache :: "catalog option"


section \<open>get_voices\<close>

text \<open>\<open>f"{name} ({gender})"\<close>.\<close>

definition display_name :: "string \<Rightarrow> string \<Rightarrow> string" where
  "display_name voice_name gender = voice_name @ '' ('' @ gender @ '')''"

text \<open>One iteration of the loop of \<open>get_voices\<close>, in the order of the source:
  \<open>voice.language_codes[0]\<close> raises \<open>IndexError\<close> on an empty list;
  \<open>SsmlVoiceGender(voice.ssml_gender)\<close> raises \<open>ValueError\<close> on a number that is no
  member; \<open>formatted_voices[language]\<close> raises \<open>KeyError\<close> on a missing key.\<close>

definition add_voice :: "catalog \<Rightarrow> voice \<Rightarrow> exn + catalog" where
  "add_voice formatted_voices v =
     (case language_codes v of
        [] \<Rightarrow> Inl IndexError
      | language # _ \<Rightarrow>
          (case to_SsmlVoiceGender (ssml_gender v) of
             Inl e \<Rightarrow> Inl e
           | Inr member \<Rightarrow>
               (let gender = capitalize (gender_name member);
                    fv = (if map_of formatted_voices language = None
                          then AList.update language [] formatted_voices
                          else formatted_voices)
                in case map_of fv language of
                     None \<Rightarrow> Inl KeyError
                   | Some bucket \<Rightarrow>
                       Inr (AList.update language
                              (bucket @ [(name v, display_name (name v) gender)]) fv))))"

fun get_voices_loop :: "catalog \<Rightarrow> voice list \<Rightarrow> exn + catalog" where
  "get_voices_loop formatted_voices [] = Inr formatted_voices"
| "get_voices_loop formatted_voices (v # vs) =
     (case add_voice formatted_voices v of
        Inl e \<Rightarrow> Inl e
      | Inr fv \<Rightarrow> get_voices_loop fv vs)"

text \<open>The body of the \<open>try\<close> block, given the provider's answer.\<close>

definition get_voices_try :: "exn + voice list \<Rightarrow> exn + catalog" where
  "get_voices_try resp =
     (case resp of Inl e \<Rightarrow> Inl e | Inr voice_list \<Rightarrow> get_voices_loop [] voice_list)"

text \<open>\<open>get_voices\<close> without its decorator: one \<open>list_voices\<close> call; any exception is
  shown with \<open>st.error\<close> and the empty dictionary is returned.\<close>

definition get_voices :: "provider \<Rightarrow> world \<Rightarrow> catalog \<times> world" where
  "get_voices p w =
     (let w1 = w\<lparr>list_calls := Suc (list_calls w)\<rparr>
      in case get_voices_try (list_voices_response p (list_calls w)) of
           Inr formatted_voices \<Rightarrow> (formatted_voices, w1)
         | Inl e \<Rightarrow>
             ([], w1\<lparr>ui := ui w1 @ [St_error_exn ''Could not fetch voices from Google API: '' e]\<rparr>))"

text \<open>Modelled from the spec: the memoisation of the decorator \<open>st.cache_data\<close> on
  \<open>get_voices\<close>, whose implementation belongs to the UI library and is not part of the
  source. As the spec words it, the result of the first call is kept for the rest of
  the process and later requests return it without contacting the provider; there is
  no invalidation. The function takes no argument, so the cache is one cell.\<close>

definition get_voices_cached :: "provider \<Rightarrow> world \<Rightarrow> catalog \<times> world" where
  "get_voices_cached p w =
     (case voices_cache w of
        Some formatted_voices \<Rightarrow> (formatted_voices, w)
      | None \<Rightarrow>
          (case get_voices p w of
             (formatted_voices, w1) \<Rightarrow>
               (formatted_voices, w1\<lparr>voices_cache := Some formatted_voices\<rparr>)))"

text \<open>The world after \<open>n\<close> further requests for the voice list.\<close>

fun fetch_again :: "provider \<Rightarrow> nat \<Rightarrow> world \<Rightarrow> world" where
  "fetch_again p 0 w = w"
| "fetch_again p (Suc n) w = fetch_again p n (snd (get_voices_cached p w))"


section \<open>synthesize_speech\<close>

text \<open>\<open>"-".join(voice_name.split("-")[:2])\<close>.\<close>

definition derive_language_code :: "string \<Rightarrow> string" where
  "derive_language_code voice_name = py_join ''-'' (take 2 (py_split CHR ''-'' voice_name))"

text \<open>The spec's wording of the same derivation, "the first two hyphen-separated
  segments": the characters of the name before its hyphen number \<open>n\<close> (counted from 0),
  the whole name when it has no such hyphen.\<close>

fun before_hyphen :: "nat \<Rightarrow> string \<Rightarrow> string" where
  "before_hyphen n [] = []"
| "before_hyphen n (c # cs) =
     (if c = CHR ''-''
      then (case n of 0 \<Rightarrow> [] | Suc m \<Rightarrow> c # before_hyphen m cs)
      else c # before_hyphen n cs)"

definition first_two_segments :: "string \<Rightarrow> string" where
  "first_two_segments voice_name = before_hyphen 1 voice_name"

text \<open>The request that the three messages make up.\<close>

definition build_request :: "unicode \<Rightarrow> string \<Rightarrow> real \<Rightarrow> real \<Rightarrow> synthesis_request" where
  "build_request text voice_name speaking_rate pitch =
     \<lparr> req_text = text,
       req_name = voice_name,
       req_language_code = derive_language_code voice_name,
       req_audio_encoding = MP3,
       req_speaking_rate = speaking_rate,
       req_pitch = pitch \<rparr>"

text \<open>The first statements of the \<open>try\<close> block: the three messages are built in the
  order of the source, the language code being derived before
  \<open>VoiceSelectionParams\<close> is called; the first constructor that raises ends the block.\<close>

definition build_messages ::
  "provider \<Rightarrow> unicode \<Rightarrow> string \<Rightarrow> real \<Rightarrow> real \<Rightarrow> exn + synthesis_request" where
  "build_messages p text voice_name speaking_rate pitch =
     (case synthesis_input_raises p text of
        Some e \<Rightarrow> Inl e
      | None \<Rightarrow>
          (case voice_selection_params_raises p voice_name (derive_language_code voice_name) of
             Some e \<Rightarrow> Inl e
           | None \<Rightarrow>
               (case audio_config_raises p MP3 speaking_rate pitch of
                  Some e \<Rightarrow> Inl e
                | None \<Rightarrow> Inr (build_request text voice_name speaking_rate pitch))))"

text \<open>\<open>synthesize_speech\<close>: the messages are built, then one provider call is made and
  its \<open>audio_content\<close> returned; whatever raises inside the \<open>try\<close> block is shown with
  \<open>st.error\<close> and \<open>None\<close> is returned.\<close>

definition synthesize_speech ::
  "provider \<Rightarrow> unicode \<Rightarrow> string \<Rightarrow> real \<Rightarrow> real \<Rightarrow> world \<Rightarrow> bytes option \<times> world" where
  "synthesize_speech p text voice_name speaking_rate pitch w =
     (case build_messages p text voice_name speaking_rate pitch of
        Inl e \<Rightarrow> (None, w\<lparr>ui := ui w @ [St_error_exn ''API call failed: '' e]\<rparr>)
      | Inr request \<Rightarrow>
          (let w1 = w\<lparr>synth_calls := synth_calls w @ [request]\<rparr>
           in case synthesize_response p (length (synth_calls w)) request of
                Inr audio_content \<Rightarrow> (Some audio_content, w1)
              | Inl e \<Rightarrow> (None, w1\<lparr>ui := ui w1 @ [St_error_exn ''API call failed: '' e]\<rparr>)))"


section \<open>The page: voice selection and the generate button\<close>

text \<open>\<open>{display: name for name, display in voice_options}\<close>: a later pair overwrites an
  earlier one with the same display name.\<close>

definition voice_display_map :: "(string \<times> string) list \<Rightarrow> (string \<rightharpoonup> string)" where
  "voice_display_map voice_options =
     fold (\<lambda>(name, display) m. m(display \<mapsto> name)) voice_options Map.empty"

text \<open>The handler of the generate button. \<open>if audio_content\<close> is false for \<open>None\<close>
  and for the empty byte string.\<close>

definition generate_audio ::
  "provider \<Rightarrow> catalog \<Rightarrow> unicode \<Rightarrow> string \<Rightarrow> real \<Rightarrow> real \<Rightarrow> world \<Rightarrow> world" where
  "generate_audio p available_voices input_text selected_voice_name speaking_rate pitch w =
     (if py_strip input_text = []
      then w\<lparr>ui := ui w @ [St_warning ''Please enter some text to generate audio.'']\<rparr>
      else if available_voices = []
      then w\<lparr>ui := ui w @ [St_error ''Cannot generate audio because voice list is unavailable.'']\<rparr>
      else
        (case synthesize_speech p input_text selected_voice_name speaking_rate pitch w of
           (audio_content, w1) \<Rightarrow>
             (case audio_content of
                Some audio \<Rightarrow>
                  if audio \<noteq> []
                  then w1\<lparr>ui := ui w1 @
                         [St_success ''Audio generated successfully!'',
                          St_audio audio,
                          St_download_button audio]\<rparr>
                  else w1\<lparr>ui := ui w1 @
                         [St_error ''Failed to generate audio. Please check the logs or your API credentials.'']\<rparr>
              | None \<Rightarrow>
                  w1\<lparr>ui := ui w1 @
                     [St_error ''Failed to generate audio. Please check the logs or your API credentials.'']\<rparr>)))"

text \<open>The local preconditions that the spec lists for a synthesis request.\<close>

definition in_catalog :: "catalog \<Rightarrow> string \<Rightarrow> bool" where
  "in_catalog available_voices voice_name =
     (voice_name \<in> set (map fst (concat (map snd available_voices))))"

definition rate_in_range :: "real \<Rightarrow> bool" where
  "rate_in_range speaking_rate = (0.25 \<le> speaking_rate \<and> speaking_rate \<le> 4.0)"

definition pitch_in_range :: "real \<Rightarrow> bool" where
  "pitch_in_range pitch = (- 20.0 \<le> pitch \<and> pitch \<le> 20.0)"


section \<open>Vocabulary of the properties\<close>

text \<open>The voice's first language code is \<open>language\<close>.\<close>

definition first_language :: "voice \<Rightarrow> string \<Rightarrow> bool" where
  "first_language v language =
     (case language_codes v of [] \<Rightarrow> False | l # _ \<Rightarrow> l = language)"

text \<open>The gender word as the spec writes it in a display label: the enumerant's name
  with its first letter in upper case and the others in lower case.\<close>

fun gender_word :: "SsmlVoiceGender \<Rightarrow> string" where
  "gender_word SSML_VOICE_GENDER_UNSPECIFIED = ''Ssml_voice_gender_unspecified''"
| "gender_word MALE = ''Male''"
| "gender_word FEMALE = ''Female''"
| "gender_word NEUTRAL = ''Neutral''"

text \<open>The pair of name and label of a voice whose gender number is a member of the
  enumeration (for another number the gender part of the label is left empty).\<close>

definition voice_entry :: "voice \<Rightarrow> string \<times> string" where
  "voice_entry v =
     (name v,
      name v @ '' ('' @
        (case to_SsmlVoiceGender (ssml_gender v) of
           Inr member \<Rightarrow> gender_word member
         | Inl e \<Rightarrow> []) @ '')'')"

text \<open>The entries of the voices of a response whose first language code is
  \<open>language\<close>, in the order of the response.\<close>

definition bucket_of :: "string \<Rightarrow> voice list \<Rightarrow> (string \<times> string) list" where
  "bucket_of language vs = map voice_entry (filter (\<lambda>v. first_language v language) vs)"

text \<open>The list stored under a key, empty when the key is absent.\<close>

definition bucket_before :: "catalog \<Rightarrow> string \<Rightarrow> (string \<times> string) list" where
  "bucket_before fv language = (case map_of fv language of None \<Rightarrow> [] | Some b \<Rightarrow> b)"


section \<open>Concrete inputs\<close>

definition wavenet_f :: voice where
  "wavenet_f = \<lparr> name = ''en-US-Wavenet-F'', language_codes = [''en-US''], ssml_gender = 2 \<rparr>"

definition wavenet_b :: voice where
  "wavenet_b = \<lparr> name = ''de-DE-Wavenet-B'', language_codes = [''de-DE''], ssml_gender = 1 \<rparr>"

definition standard_a :: voice where
  "standard_a = \<lparr> name = ''en-US-Standard-A'', language_codes = [''en-US'', ''en-GB''], ssml_gender = 3 \<rparr>"

text \<open>A voice without language code, and one whose gender number is no member of the
  enumeration.\<close>

definition no_language :: voice where
  "no_language = \<lparr> name = ''xx-Voice'', language_codes = [], ssml_gender = 1 \<rparr>"

definition new_gender :: voice where
  "new_gender = \<lparr> name = ''en-US-Studio-Q'', language_codes = [''en-US''], ssml_gender = 7 \<rparr>"

definition world0 :: world where
  "world0 = \<lparr> list_calls = 0, synth_calls = [], ui = [], voices_cache = None \<rparr>"

text \<open>A \<open>SynthesisInput\<close> that refuses a text with a surrogate code point, which has no
  UTF-8 encoding, and accepts every other text.\<close>

definition refuse_surrogates :: "unicode \<Rightarrow> exn option" where
  "refuse_surrogates text =
     (if list_ex (\<lambda>c. 55296 \<le> c \<and> c \<le> 57343) text
      then Some (MessageError ''surrogates not allowed'')
      else None)"

text \<open>A provider that lists three voices and answers every synthesis with three bytes;
  one whose list contains a voice without language code; one whose list contains a
  voice with an unknown gender number; one whose calls all fail; one whose voice list
  changes after its first answer.\<close>

definition good_provider :: provider where
  "good_provider =
     \<lparr> list_voices_response = (\<lambda>n. Inr [wavenet_f, wavenet_b, standard_a]),
       synthesis_input_raises = refuse_surrogates,
       voice_selection_params_raises = (\<lambda>voice_name language_code. None),
       audio_config_raises = (\<lambda>encoding speaking_rate pitch. None),
       synthesize_response = (\<lambda>n r. Inr [73, 68, 51]) \<rparr>"

definition odd_provider :: provider where
  "odd_provider =
     good_provider\<lparr> list_voices_response := (\<lambda>n. Inr [wavenet_f, no_language]) \<rparr>"

definition newer_provider :: provider where
  "newer_provider =
     good_provider\<lparr> list_voices_response := (\<lambda>n. Inr [wavenet_f, new_gender]) \<rparr>"

definition down_provider :: provider where
  "down_provider =
     good_provider\<lparr> list_voices_response := (\<lambda>n. Inl (ProviderError ''503 unavailable'')),
                    synthesize_response := (\<lambda>n r. Inl (ProviderError ''503 unavailable'')) \<rparr>"

definition changing_provider :: provider where
  "changing_provider =
     good_provider\<lparr> list_voices_response :=
                      (\<lambda>n. if n = 0 then Inr [wavenet_f] else Inr [wavenet_b]) \<rparr>"

text \<open>A catalog with one bucket; the text \<open>Hello\<close>; a text of a space, a tab, a line
  feed, an em space (U+2003) and a no-break space; and a text that holds the lone
  surrogate U+D800.\<close>

definition some_catalog :: catalog where
  "some_catalog = [(''en-US'', [(''en-US-Wavenet-F'', ''en-US-Wavenet-F (Female)'')])]"

definition hello :: unicode where
  "hello = [72, 101, 108, 108, 111]"

definition spaces_only :: unicode where
  "spaces_only = [32, 9, 10, 8195, 160]"

definition lone_surrogate :: unicode where
  "lone_surrogate = [72, 105, 55296]"


section \<open>The loop of get_voices\<close>

lemma concat_update_absent:
  "map_of al k = None \<Longrightarrow> concat (map snd (AList.update k [] al)) = concat (map snd al)"
  by (induction al) (auto split: if_splits)

lemma mset_update_present:
  "map_of al k = Some b \<Longrightarrow>
   mset (concat (map snd (AList.update k (b @ [x]) al))) = add_mset x (mset (concat (map snd al)))"
  by (induction al) (auto split: if_splits)

lemma to_SsmlVoiceGender_member:
  "n \<in> {0, 1, 2, 3} \<longleftrightarrow> (\<exists>member. to_SsmlVoiceGender n = Inr member)"
  by (auto simp: to_SsmlVoiceGender_def)

lemma capitalize_gender: "capitalize (gender_name g) = gender_word g"
  by (cases g) (simp_all add: ascii_upper_def ascii_lower_def)

lemma voice_entry_member:
  "to_SsmlVoiceGender (ssml_gender v) = Inr member \<Longrightarrow>
   voice_entry v = (name v, display_name (name v) (capitalize (gender_name member)))"
  by (simp add: voice_entry_def display_name_def capitalize_gender)

lemma add_voice_Inr:
  assumes "language_codes v = l # rest"
    and "to_SsmlVoiceGender (ssml_gender v) = Inr member"
  shows "\<exists>fv'. add_voice fv v = Inr fv'
      \<and> map_of fv' = (map_of fv)(l \<mapsto> bucket_before fv l @ [voice_entry v])
      \<and> (distinct (map fst fv) \<longrightarrow> distinct (map fst fv'))
      \<and> mset (concat (map snd fv')) = add_mset (voice_entry v) (mset (concat (map snd fv)))"
proof (cases "map_of fv l")
  case None
  have a: "map_of (AList.update l [] fv) l = Some []"
    by (simp add: update_conv')
  show ?thesis
    using assms None
    by (simp add: add_voice_def Let_def a bucket_before_def update_conv' distinct_update
        mset_update_present [OF a, simplified] concat_update_absent
        voice_entry_member [symmetric])
next
  case (Some b)
  then show ?thesis
    using assms
    by (simp add: add_voice_def Let_def bucket_before_def update_conv' distinct_update
        mset_update_present voice_entry_member [symmetric])
qed

lemma add_voice_InrD:
  "add_voice fv v = Inr fv1 \<Longrightarrow> language_codes v \<noteq> [] \<and> ssml_gender v \<in> {0, 1, 2, 3}"
  unfolding to_SsmlVoiceGender_member
  by (auto simp: add_voice_def split: list.splits sum.splits)

lemma bucket_of_Cons:
  "bucket_of L (v # vs) =
     (if first_language v L then voice_entry v # bucket_of L vs else bucket_of L vs)"
  by (simp add: bucket_of_def)

lemma get_voices_loop_Inr:
  assumes "\<forall>v \<in> set vs. language_codes v \<noteq> [] \<and> ssml_gender v \<in> {0, 1, 2, 3}"
  shows "\<exists>fv'. get_voices_loop fv vs = Inr fv'
      \<and> (\<forall>L. map_of fv' L =
            (if map_of fv L = None \<and> bucket_of L vs = [] then None
             else Some (bucket_before fv L @ bucket_of L vs)))
      \<and> (distinct (map fst fv) \<longrightarrow> distinct (map fst fv'))
      \<and> mset (concat (map snd fv')) = mset (concat (map snd fv)) + mset (map voice_entry vs)"
  using assms
proof (induction vs arbitrary: fv)
  case Nil
  then show ?case
    by (auto simp: bucket_of_def bucket_before_def split: option.splits)
next
  case (Cons v vs)
  then obtain l rest where lc: "language_codes v = l # rest"
    by (cases "language_codes v") auto
  from Cons.prems have "ssml_gender v \<in> {0, 1, 2, 3}"
    by simp
  then obtain member where g: "to_SsmlVoiceGender (ssml_gender v) = Inr member"
    unfolding to_SsmlVoiceGender_member by blast
  from add_voice_Inr [OF lc g, of fv] obtain fv1 where
    s1: "add_voice fv v = Inr fv1"
    and s2: "map_of fv1 = (map_of fv)(l \<mapsto> bucket_before fv l @ [voice_entry v])"
    and s3: "distinct (map fst fv) \<longrightarrow> distinct (map fst fv1)"
    and s4: "mset (concat (map snd fv1)) = add_mset (voice_entry v) (mset (concat (map snd fv)))"
    by blast
  from Cons.prems have "\<forall>v \<in> set vs. language_codes v \<noteq> [] \<and> ssml_gender v \<in> {0, 1, 2, 3}"
    by simp
  from Cons.IH [OF this, of fv1] obtain fv' where
    t1: "get_voices_loop fv1 vs = Inr fv'"
    and t2: "\<forall>L. map_of fv' L =
            (if map_of fv1 L = None \<and> bucket_of L vs = [] then None
             else Some (bucket_before fv1 L @ bucket_of L vs))"
    and t3: "distinct (map fst fv1) \<longrightarrow> distinct (map fst fv')"
    and t4: "mset (concat (map snd fv')) = mset (concat (map snd fv1)) + mset (map voice_entry vs)"
    by blast
  have fl: "\<And>L. first_language v L \<longleftrightarrow> L = l"
    using lc by (auto simp: first_language_def)
  have "\<forall>L. map_of fv' L =
            (if map_of fv L = None \<and> bucket_of L (v # vs) = [] then None
             else Some (bucket_before fv L @ bucket_of L (v # vs)))"
    using t2 s2 by (auto simp: bucket_of_Cons fl bucket_before_def split: option.splits)
  then show ?case
    using s1 t1 s3 t3 s4 t4 by simp
qed

lemma get_voices_loop_Inr_well_formed:
  "get_voices_loop fv vs = Inr fv' \<Longrightarrow>
   \<forall>v \<in> set vs. language_codes v \<noteq> [] \<and> ssml_gender v \<in> {0, 1, 2, 3}"
proof (induction vs arbitrary: fv)
  case Nil
  then show ?case by simp
next
  case (Cons v vs)
  from Cons.prems obtain fv1 where
    a: "add_voice fv v = Inr fv1" and l: "get_voices_loop fv1 vs = Inr fv'"
    by (auto split: sum.splits)
  from add_voice_InrD [OF a] Cons.IH [OF l] show ?case
    by simp
qed

lemma get_voices_loop_empty_start:
  assumes "\<forall>v \<in> set vs. language_codes v \<noteq> [] \<and> ssml_gender v \<in> {0, 1, 2, 3}"
  shows "\<exists>fv. get_voices_loop [] vs = Inr fv
      \<and> (\<forall>L. map_of fv L = (if bucket_of L vs = [] then None else Some (bucket_of L vs)))
      \<and> distinct (map fst fv)
      \<and> mset (concat (map snd fv)) = mset (map voice_entry vs)"
proof -
  from get_voices_loop_Inr [OF assms, of "[]"] obtain fv where
    a: "get_voices_loop [] vs = Inr fv"
    and b: "\<forall>L. map_of fv L =
            (if map_of ([]::catalog) L = None \<and> bucket_of L vs = [] then None
             else Some (bucket_before [] L @ bucket_of L vs))"
    and c: "distinct (map fst ([]::catalog)) \<longrightarrow> distinct (map fst fv)"
    and d: "mset (concat (map snd fv)) =
            mset (concat (map snd ([]::catalog))) + mset (map voice_entry vs)"
    by blast
  from b have "\<forall>L. map_of fv L = (if bucket_of L vs = [] then None else Some (bucket_of L vs))"
    by (simp add: bucket_before_def)
  moreover from c have "distinct (map fst fv)"
    by simp
  moreover from d have "mset (concat (map snd fv)) = mset (map voice_entry vs)"
    by simp
  ultimately show ?thesis
    using a by blast
qed

lemma get_voices_success:
  assumes "list_voices_response p (list_calls w) = Inr vs"
    and "\<forall>v \<in> set vs. language_codes v \<noteq> [] \<and> ssml_gender v \<in> {0, 1, 2, 3}"
  shows "\<exists>fv. get_voices p w = (fv, w\<lparr>list_calls := Suc (list_calls w)\<rparr>)
      \<and> (\<forall>L. map_of fv L = (if bucket_of L vs = [] then None else Some (bucket_of L vs)))
      \<and> distinct (map fst fv)
      \<and> mset (concat (map snd fv)) = mset (map voice_entry vs)"
proof -
  from get_voices_loop_empty_start [OF assms(2)] obtain fv where
    a: "get_voices_loop [] vs = Inr fv" and
    b: "(\<forall>L. map_of fv L = (if bucket_of L vs = [] then None else Some (bucket_of L vs)))
      \<and> distinct (map fst fv)
      \<and> mset (concat (map snd fv)) = mset (map voice_entry vs)" by blast
  have "get_voices p w = (fv, w\<lparr>list_calls := Suc (list_calls w)\<rparr>)"
    using a assms(1) by (simp add: get_voices_def get_voices_try_def)
  with b show ?thesis by blast
qed

lemma get_voices_empty_on_error:
  "list_voices_response p (list_calls w) = Inl e \<Longrightarrow> fst (get_voices p w) = []"
  by (simp add: get_voices_def get_voices_try_def)

lemma get_voices_bucket:
  assumes "list_voices_response p (list_calls w) = Inr vs"
    and "map_of (fst (get_voices p w)) L = Some b"
  shows "b = bucket_of L vs
       \<and> (\<forall>v \<in> set vs. language_codes v \<noteq> [] \<and> ssml_gender v \<in> {0, 1, 2, 3})"
proof (cases "get_voices_loop [] vs")
  case (Inl e)
  then have "fst (get_voices p w) = []"
    using assms(1) by (simp add: get_voices_def get_voices_try_def)
  with assms(2) show ?thesis by simp
next
  case (Inr fv)
  from get_voices_loop_Inr_well_formed [OF Inr]
  have ne: "\<forall>v \<in> set vs. language_codes v \<noteq> [] \<and> ssml_gender v \<in> {0, 1, 2, 3}" .
  from get_voices_success [OF assms(1) ne] obtain fv where
    g: "get_voices p w = (fv, w\<lparr>list_calls := Suc (list_calls w)\<rparr>)" and
    m: "\<forall>L. map_of fv L = (if bucket_of L vs = [] then None else Some (bucket_of L vs))"
    by blast
  from g assms(2) have "map_of fv L = Some b"
    by simp
  with m have "b = bucket_of L vs"
    by (simp split: if_splits)
  with ne show ?thesis
    by simp
qed

lemma good_catalog:
  "fst (get_voices good_provider world0) =
       [(''en-US'', [(''en-US-Wavenet-F'', ''en-US-Wavenet-F (Female)''),
                     (''en-US-Standard-A'', ''en-US-Standard-A (Neutral)'')]),
        (''de-DE'', [(''de-DE-Wavenet-B'', ''de-DE-Wavenet-B (Male)'')])]"
  by (simp add: get_voices_def get_voices_try_def add_voice_def to_SsmlVoiceGender_def
      display_name_def ascii_upper_def ascii_lower_def
      good_provider_def world0_def wavenet_f_def wavenet_b_def standard_a_def)

lemma good_response:
  "list_voices_response good_provider (list_calls world0) = Inr [wavenet_f, wavenet_b, standard_a]"
  by (simp add: good_provider_def world0_def)

lemma good_voices_well_formed:
  "\<forall>v \<in> set [wavenet_f, wavenet_b, standard_a].
     language_codes v \<noteq> [] \<and> ssml_gender v \<in> {0, 1, 2, 3}"
  by (simp add: wavenet_f_def wavenet_b_def standard_a_def)

text \<open>
  Claim C1, as amended. When the provider's list is answered and every voice in it has
  at least one language code and a gender number of the enumeration, \<open>get_voices\<close>
  returns a dictionary in which the list stored under a language is exactly the
  entries of the voices whose first language code it is, in the order of the
  response; a language without such a voice is not a key; no key occurs twice; and
  all the buckets together hold the entries of the response, each as often as it
  occurs there.
\<close>

theorem catalog_groups_by_first_language:
  assumes "list_voices_response p (list_calls w) = Inr vs"
    and "\<forall>v \<in> set vs. language_codes v \<noteq> [] \<and> ssml_gender v \<in> {0, 1, 2, 3}"
  shows "\<exists>fv. get_voices p w = (fv, w\<lparr>list_calls := Suc (list_calls w)\<rparr>)
      \<and> (\<forall>L. map_of fv L = (if bucket_of L vs = [] then None else Some (bucket_of L vs)))
      \<and> distinct (map fst fv)
      \<and> mset (concat (map snd fv)) = mset (map voice_entry vs)"
  using assms by (rule get_voices_success)

theorem catalog_groups_by_first_language_witness:
  "list_voices_response good_provider (list_calls world0) = Inr [wavenet_f, wavenet_b, standard_a]
   \<and> language_codes wavenet_f \<noteq> [] \<and> language_codes wavenet_b \<noteq> [] \<and> language_codes standard_a \<noteq> []
   \<and> ssml_gender wavenet_f = 2 \<and> ssml_gender wavenet_b = 1 \<and> ssml_gender standard_a = 3
   \<and> fst (get_voices good_provider world0) =
       [(''en-US'', [(''en-US-Wavenet-F'', ''en-US-Wavenet-F (Female)''),
                     (''en-US-Standard-A'', ''en-US-Standard-A (Neutral)'')]),
        (''de-DE'', [(''de-DE-Wavenet-B'', ''de-DE-Wavenet-B (Male)'')])]
   \<and> bucket_of ''en-US'' [wavenet_f, wavenet_b, standard_a] =
       [(''en-US-Wavenet-F'', ''en-US-Wavenet-F (Female)''),
        (''en-US-Standard-A'', ''en-US-Standard-A (Neutral)'')]"
proof -
  have v: "language_codes wavenet_f \<noteq> [] \<and> language_codes wavenet_b \<noteq> []
      \<and> language_codes standard_a \<noteq> []
      \<and> ssml_gender wavenet_f = 2 \<and> ssml_gender wavenet_b = 1 \<and> ssml_gender standard_a = 3"
    by (simp add: wavenet_f_def wavenet_b_def standard_a_def)
  have b: "bucket_of ''en-US'' [wavenet_f, wavenet_b, standard_a] =
       [(''en-US-Wavenet-F'', ''en-US-Wavenet-F (Female)''),
        (''en-US-Standard-A'', ''en-US-Standard-A (Neutral)'')]"
    by (simp add: bucket_of_def first_language_def voice_entry_def to_SsmlVoiceGender_def
        wavenet_f_def wavenet_b_def standard_a_def)
  from catalog_groups_by_first_language [OF good_response good_voices_well_formed]
    good_response v good_catalog b
  show ?thesis
    by simp
qed

text \<open>
  Claim C1 as stated fails: when one voice of the response has no language code, the
  index raises inside the \<open>try\<close> block and the empty dictionary is returned, so the
  voice with first language code \<open>en-US\<close> is in no bucket; the same happens when one
  voice carries a gender number that is no member of the enumeration.
\<close>

theorem catalog_drops_all_counterexample:
  "list_voices_response odd_provider (list_calls world0) = Inr [wavenet_f, no_language]
   \<and> language_codes wavenet_f = [''en-US'']
   \<and> fst (get_voices odd_provider world0) = []
   \<and> list_voices_response newer_provider (list_calls world0) = Inr [wavenet_f, new_gender]
   \<and> language_codes new_gender = [''en-US'']
   \<and> ssml_gender new_gender = 7
   \<and> fst (get_voices newer_provider world0) = []"
  by (simp add: get_voices_def get_voices_try_def add_voice_def to_SsmlVoiceGender_def
      display_name_def odd_provider_def newer_provider_def good_provider_def world0_def
      wavenet_f_def no_language_def new_gender_def)

text \<open>
  Claim C6. When the provider's \<open>list_voices\<close> call raises, \<open>get_voices\<close> returns the
  empty dictionary, after one call, and shows the error with \<open>st.error\<close>; it returns
  a value and raises nothing.
\<close>

theorem fetch_failure_yields_empty:
  assumes "list_voices_response p (list_calls w) = Inl e"
  shows "get_voices p w =
           ([], w\<lparr>list_calls := Suc (list_calls w),
                  ui := ui w @ [St_error_exn ''Could not fetch voices from Google API: '' e]\<rparr>)"
  using assms by (simp add: get_voices_def get_voices_try_def)

theorem fetch_failure_yields_empty_witness:
  "list_voices_response down_provider (list_calls world0) = Inl (ProviderError ''503 unavailable'')
   \<and> get_voices down_provider world0 =
        ([], \<lparr> list_calls = 1, synth_calls = [],
               ui = [St_error_exn ''Could not fetch voices from Google API: ''
                       (ProviderError ''503 unavailable'')],
               voices_cache = None \<rparr>)"
proof -
  have r: "list_voices_response down_provider (list_calls world0) = Inl (ProviderError ''503 unavailable'')"
    by (simp add: down_provider_def)
  from fetch_failure_yields_empty [OF r] r show ?thesis
    by (simp add: world0_def)
qed

text \<open>
  Claim C9. Every entry of every bucket that \<open>get_voices\<close> returns belongs to a voice
  of the response whose first language code is the key of the bucket, and is the pair
  of that voice's name and the label \<open>name (Gender)\<close>, where \<open>Gender\<close> is the name of
  the voice's gender enumerant with only its first letter in upper case: \<open>Male\<close>,
  \<open>Female\<close>, \<open>Neutral\<close>. The bucket holds one such entry for each of these voices, in
  the order of the response.
\<close>

theorem display_label_format:
  assumes "map_of (fst (get_voices p w)) language = Some bucket"
    and "e \<in> set bucket"
  shows "\<exists>vs. list_voices_response p (list_calls w) = Inr vs
       \<and> bucket = bucket_of language vs
       \<and> (\<exists>v \<in> set vs. \<exists>member.
             first_language v language
           \<and> to_SsmlVoiceGender (ssml_gender v) = Inr member
           \<and> e = (name v, name v @ '' ('' @ capitalize (gender_name member) @ '')'')
           \<and> capitalize (gender_name member) = gender_word member)"
proof (cases "list_voices_response p (list_calls w)")
  case (Inl err)
  from get_voices_empty_on_error [OF Inl] assms(1) show ?thesis
    by simp
next
  case (Inr vs)
  from get_voices_bucket [OF Inr assms(1)] have
    b: "bucket = bucket_of language vs" and
    wf: "\<forall>v \<in> set vs. language_codes v \<noteq> [] \<and> ssml_gender v \<in> {0, 1, 2, 3}"
    by simp_all
  from assms(2) b obtain v where
    v: "v \<in> set vs" "first_language v language" "e = voice_entry v"
    by (auto simp: bucket_of_def)
  from wf v(1) have "ssml_gender v \<in> {0, 1, 2, 3}"
    by simp
  then obtain member where m: "to_SsmlVoiceGender (ssml_gender v) = Inr member"
    unfolding to_SsmlVoiceGender_member by blast
  from v(3) m have "e = (name v, name v @ '' ('' @ capitalize (gender_name member) @ '')'')"
    by (simp add: voice_entry_member display_name_def)
  with Inr b v(1,2) m capitalize_gender [of member] show ?thesis
    by blast
qed

theorem display_label_format_witness:
  "map_of (fst (get_voices good_provider world0)) ''en-US'' =
        Some [(''en-US-Wavenet-F'', ''en-US-Wavenet-F (Female)''),
              (''en-US-Standard-A'', ''en-US-Standard-A (Neutral)'')]
   \<and> list_voices_response good_provider (list_calls world0) = Inr [wavenet_f, wavenet_b, standard_a]
   \<and> bucket_of ''en-US'' [wavenet_f, wavenet_b, standard_a] =
        [(''en-US-Wavenet-F'', ''en-US-Wavenet-F (Female)''),
         (''en-US-Standard-A'', ''en-US-Standard-A (Neutral)'')]
   \<and> first_language standard_a ''en-US''
   \<and> to_SsmlVoiceGender (ssml_gender standard_a) = Inr NEUTRAL
   \<and> name standard_a @ '' ('' @ capitalize (gender_name NEUTRAL) @ '')'' = ''en-US-Standard-A (Neutral)''"
proof -
  have e: "map_of (fst (get_voices good_provider world0)) ''en-US'' =
        Some [(''en-US-Wavenet-F'', ''en-US-Wavenet-F (Female)''),
              (''en-US-Standard-A'', ''en-US-Standard-A (Neutral)'')]"
    by (simp add: good_catalog)
  have m: "(''en-US-Standard-A'', ''en-US-Standard-A (Neutral)'') \<in>
        set [(''en-US-Wavenet-F'', ''en-US-Wavenet-F (Female)''),
             (''en-US-Standard-A'', ''en-US-Standard-A (Neutral)'')]"
    by simp
  from display_label_format [OF e m] good_response
  have b: "bucket_of ''en-US'' [wavenet_f, wavenet_b, standard_a] =
        [(''en-US-Wavenet-F'', ''en-US-Wavenet-F (Female)''),
         (''en-US-Standard-A'', ''en-US-Standard-A (Neutral)'')]"
    by auto
  have s: "first_language standard_a ''en-US''
      \<and> to_SsmlVoiceGender (ssml_gender standard_a) = Inr NEUTRAL
      \<and> name standard_a @ '' ('' @ capitalize (gender_name NEUTRAL) @ '')'' = ''en-US-Standard-A (Neutral)''"
    by (simp add: first_language_def to_SsmlVoiceGender_def standard_a_def
        ascii_upper_def ascii_lower_def)
  from e good_response b s show ?thesis
    by (intro conjI) simp_all
qed

lemma split_at_last_marker:
  "a @ x # g = b @ x # h \<Longrightarrow> x \<notin> set g \<Longrightarrow> x \<notin> set h \<Longrightarrow> a = b"
proof (induction a arbitrary: b)
  case Nil
  then show ?case by (cases b) auto
next
  case (Cons y a)
  then show ?case by (cases b) auto
qed

lemma gender_word_no_paren: "CHR ''('' \<notin> set (gender_word g @ '')'')"
  by (cases g) simp_all

lemma voice_entry_label_inj:
  assumes "ssml_gender v \<in> {0, 1, 2, 3}" and "ssml_gender u \<in> {0, 1, 2, 3}"
    and "snd (voice_entry v) = snd (voice_entry u)"
  shows "name v = name u"
proof -
  from assms(1) obtain mv where mv: "to_SsmlVoiceGender (ssml_gender v) = Inr mv"
    unfolding to_SsmlVoiceGender_member by blast
  from assms(2) obtain mu where mu: "to_SsmlVoiceGender (ssml_gender u) = Inr mu"
    unfolding to_SsmlVoiceGender_member by blast
  from assms(3) mv mu have "(name v @ '' '') @ CHR ''('' # (gender_word mv @ '')'')
      = (name u @ '' '') @ CHR ''('' # (gender_word mu @ '')'')"
    by (simp add: voice_entry_def)
  from split_at_last_marker [OF this gender_word_no_paren gender_word_no_paren]
  show ?thesis by simp
qed

lemma voice_display_map_snoc:
  "voice_display_map (xs @ [(n, d)]) = (voice_display_map xs)(d \<mapsto> n)"
  by (simp add: voice_display_map_def)

lemma voice_display_map_lookup:
  assumes "\<forall>(n1, d1) \<in> set xs. \<forall>(n2, d2) \<in> set xs. d1 = d2 \<longrightarrow> n1 = n2"
    and "(n, d) \<in> set xs"
  shows "voice_display_map xs d = Some n"
  using assms
proof (induction xs rule: rev_induct)
  case Nil
  then show ?case by simp
next
  case (snoc x xs)
  obtain n' d' where x: "x = (n', d')" by (cases x)
  show ?case
  proof (cases "d' = d")
    case True
    with snoc.prems x have "n' = n" by fastforce
    with True x show ?thesis by (simp add: voice_display_map_snoc)
  next
    case False
    with snoc.prems x have "(n, d) \<in> set xs" by auto
    moreover from snoc.prems(1) have "\<forall>(n1, d1) \<in> set xs. \<forall>(n2, d2) \<in> set xs. d1 = d2 \<longrightarrow> n1 = n2"
      by auto
    ultimately have "voice_display_map xs d = Some n" by (rule snoc.IH [rotated])
    with False x show ?thesis by (simp add: voice_display_map_snoc)
  qed
qed

lemma bucket_of_labels:
  assumes "\<forall>v \<in> set vs. language_codes v \<noteq> [] \<and> ssml_gender v \<in> {0, 1, 2, 3}"
    and "(n1, d) \<in> set (bucket_of L vs)" and "(n2, d) \<in> set (bucket_of L vs)"
  shows "n1 = n2"
proof -
  from assms(2) obtain v where v: "v \<in> set vs" "voice_entry v = (n1, d)"
    by (auto simp: bucket_of_def)
  from assms(3) obtain u where u: "u \<in> set vs" "voice_entry u = (n2, d)"
    by (auto simp: bucket_of_def)
  from v(2) have nv: "name v = n1"
    by (simp add: voice_entry_def)
  from u(2) have nu: "name u = n2"
    by (simp add: voice_entry_def)
  from assms(1) v(1) u(1) have "ssml_gender v \<in> {0, 1, 2, 3}" "ssml_gender u \<in> {0, 1, 2, 3}"
    by simp_all
  moreover from v(2) u(2) have "snd (voice_entry v) = snd (voice_entry u)"
    by simp
  ultimately have "name v = name u"
    by (rule voice_entry_label_inj)
  with nv nu show ?thesis
    by simp
qed

lemma bucket_of_names:
  assumes "distinct (map name vs)"
    and "(n, d1) \<in> set (bucket_of L vs)" and "(n, d2) \<in> set (bucket_of L vs)"
  shows "d1 = d2"
proof -
  from assms(2) obtain v where v: "v \<in> set vs" "voice_entry v = (n, d1)"
    by (auto simp: bucket_of_def)
  from assms(3) obtain u where u: "u \<in> set vs" "voice_entry u = (n, d2)"
    by (auto simp: bucket_of_def)
  from v(2) u(2) have "name v = name u"
    by (simp add: voice_entry_def)
  moreover from assms(1) have "inj_on name (set vs)"
    by (simp add: distinct_map)
  ultimately have "v = u"
    using v(1) u(1) by (auto dest: inj_onD)
  with v(2) u(2) show ?thesis
    by simp
qed

lemma voice_display_map_None:
  "voice_display_map xs d = None \<longleftrightarrow> d \<notin> snd ` set xs"
proof (induction xs rule: rev_induct)
  case Nil
  then show ?case by (simp add: voice_display_map_def)
next
  case (snoc x xs)
  obtain n' d' where x: "x = (n', d')" by (cases x)
  show ?case
    using snoc.IH by (cases "d' = d") (simp_all add: x voice_display_map_snoc)
qed

lemma voice_display_map_dom: "dom (voice_display_map xs) = snd ` set xs"
  using voice_display_map_None [of xs] by (auto simp: dom_def)

text \<open>
  Claim C7. In every bucket that \<open>get_voices\<close> returns, the dictionary from display
  name to name sends the label of each pair to the name of that pair; no two names
  of the bucket share a label; when the names of the response are unique, no name has
  two labels; and the keys of the dictionary are the labels of the bucket.
\<close>

theorem display_lookup_bijective:
  assumes "list_voices_response p (list_calls w) = Inr vs"
    and "map_of (fst (get_voices p w)) language = Some voice_options"
    and "(n, d) \<in> set voice_options"
  shows "voice_display_map voice_options d = Some n
       \<and> (\<forall>n'. (n', d) \<in> set voice_options \<longrightarrow> n' = n)
       \<and> (distinct (map name vs) \<longrightarrow> (\<forall>d'. (n, d') \<in> set voice_options \<longrightarrow> d' = d))
       \<and> dom (voice_display_map voice_options) = snd ` set voice_options"
proof -
  from get_voices_bucket [OF assms(1,2)] have
    b: "voice_options = bucket_of language vs" and
    wf: "\<forall>v \<in> set vs. language_codes v \<noteq> [] \<and> ssml_gender v \<in> {0, 1, 2, 3}"
    by simp_all
  have lab: "\<And>n1 n2 d0. (n1, d0) \<in> set voice_options \<Longrightarrow> (n2, d0) \<in> set voice_options \<Longrightarrow> n1 = n2"
    unfolding b by (rule bucket_of_labels [OF wf])
  have u: "\<forall>(n1, d1) \<in> set voice_options. \<forall>(n2, d2) \<in> set voice_options. d1 = d2 \<longrightarrow> n1 = n2"
    using lab by blast
  from voice_display_map_lookup [OF u assms(3)]
  have 1: "voice_display_map voice_options d = Some n" .
  have 2: "\<forall>n'. (n', d) \<in> set voice_options \<longrightarrow> n' = n"
    using lab assms(3) by blast
  have 3: "distinct (map name vs) \<longrightarrow> (\<forall>d'. (n, d') \<in> set voice_options \<longrightarrow> d' = d)"
    using assms(3) bucket_of_names [of vs n _ language d] unfolding b by blast
  have 4: "dom (voice_display_map voice_options) = snd ` set voice_options"
    by (rule voice_display_map_dom)
  from 1 2 3 4 show ?thesis
    by (intro conjI)
qed

theorem display_lookup_bijective_witness:
  "list_voices_response good_provider (list_calls world0) = Inr [wavenet_f, wavenet_b, standard_a]
   \<and> map_of (fst (get_voices good_provider world0)) ''en-US'' =
        Some [(''en-US-Wavenet-F'', ''en-US-Wavenet-F (Female)''),
              (''en-US-Standard-A'', ''en-US-Standard-A (Neutral)'')]
   \<and> voice_display_map [(''en-US-Wavenet-F'', ''en-US-Wavenet-F (Female)''),
              (''en-US-Standard-A'', ''en-US-Standard-A (Neutral)'')] ''en-US-Wavenet-F (Female)''
       = Some ''en-US-Wavenet-F''"
proof -
  have e: "map_of (fst (get_voices good_provider world0)) ''en-US'' =
        Some [(''en-US-Wavenet-F'', ''en-US-Wavenet-F (Female)''),
              (''en-US-Standard-A'', ''en-US-Standard-A (Neutral)'')]"
    by (simp add: good_catalog)
  have m: "(''en-US-Wavenet-F'', ''en-US-Wavenet-F (Female)'') \<in>
        set [(''en-US-Wavenet-F'', ''en-US-Wavenet-F (Female)''),
              (''en-US-Standard-A'', ''en-US-Standard-A (Neutral)'')]"
    by simp
  from display_lookup_bijective [OF good_response e m]
  have "voice_display_map [(''en-US-Wavenet-F'', ''en-US-Wavenet-F (Female)''),
              (''en-US-Standard-A'', ''en-US-Standard-A (Neutral)'')] ''en-US-Wavenet-F (Female)''
       = Some ''en-US-Wavenet-F''"
    by (rule conjunct1)
  with good_response e show ?thesis
    by (intro conjI)
qed


section \<open>The language code of a request\<close>

lemma py_split_nonempty: "py_split sep s \<noteq> []"
  by (induction s) (auto split: list.splits)

lemma py_join_Cons_char:
  "py_join sep ((c # p) # ps) = c # py_join sep (p # ps)"
  by (cases ps) simp_all

lemma py_join_take_split:
  "py_join ''-'' (take (Suc n) (py_split CHR ''-'' s)) = before_hyphen n s"
proof (induction s arbitrary: n)
  case Nil
  then show ?case by simp
next
  case (Cons c cs)
  show ?case
  proof (cases "c = CHR ''-''")
    case True
    show ?thesis
    proof (cases n)
      case 0
      with True show ?thesis by simp
    next
      case (Suc m)
      obtain q qs where t: "take (Suc m) (py_split CHR ''-'' cs) = q # qs"
        using py_split_nonempty [of "CHR ''-''" cs] by (cases "py_split CHR ''-'' cs") auto
      have "py_join ''-'' ([] # take (Suc m) (py_split CHR ''-'' cs))
          = CHR ''-'' # py_join ''-'' (take (Suc m) (py_split CHR ''-'' cs))"
        unfolding t by simp
      with True Suc Cons.IH [of m] show ?thesis by simp
    qed
  next
    case False
    obtain seg segs where sp: "py_split CHR ''-'' cs = seg # segs"
      using py_split_nonempty [of "CHR ''-''" cs] by (cases "py_split CHR ''-'' cs") auto
    from Cons.IH [of n] sp have "py_join ''-'' (seg # take n segs) = before_hyphen n cs"
      by simp
    with False sp show ?thesis
      by (simp add: py_join_Cons_char)
  qed
qed

lemma derive_language_code_eq: "derive_language_code voice_name = first_two_segments voice_name"
  by (simp add: derive_language_code_def first_two_segments_def py_join_take_split [symmetric]
      eval_nat_numeral)

lemma py_join_split: "py_join [sep] (py_split sep s) = s"
proof (induction s)
  case Nil
  then show ?case by simp
next
  case (Cons c cs)
  obtain seg segs where sp: "py_split sep cs = seg # segs"
    using py_split_nonempty [of sep cs] by (cases "py_split sep cs") auto
  with Cons show ?case
    by (auto simp: py_join_Cons_char)
qed

lemma build_messages_Inr:
  "build_messages p text voice_name speaking_rate pitch = Inr request \<Longrightarrow>
   request = build_request text voice_name speaking_rate pitch"
  by (auto simp: build_messages_def split: option.splits)

lemma build_messages_built:
  assumes "synthesis_input_raises p text = None"
    and "voice_selection_params_raises p voice_name (derive_language_code voice_name) = None"
    and "audio_config_raises p MP3 speaking_rate pitch = None"
  shows "build_messages p text voice_name speaking_rate pitch =
           Inr (build_request text voice_name speaking_rate pitch)"
  using assms by (simp add: build_messages_def)

lemma build_messages_Inl:
  "build_messages p text voice_name speaking_rate pitch = Inl e \<Longrightarrow>
     synthesis_input_raises p text = Some e
   \<or> voice_selection_params_raises p voice_name (derive_language_code voice_name) = Some e
   \<or> audio_config_raises p MP3 speaking_rate pitch = Some e"
  by (auto simp: build_messages_def split: option.splits)

lemma synthesize_speech_refused:
  "build_messages p text voice_name speaking_rate pitch = Inl e \<Longrightarrow>
   synthesize_speech p text voice_name speaking_rate pitch w =
     (None, w\<lparr>ui := ui w @ [St_error_exn ''API call failed: '' e]\<rparr>)"
  by (simp add: synthesize_speech_def)

lemma synth_calls_synthesize_speech:
  "synth_calls (snd (synthesize_speech p text voice_name speaking_rate pitch w)) =
     synth_calls w @
       (case build_messages p text voice_name speaking_rate pitch of
          Inl e \<Rightarrow> []
        | Inr request \<Rightarrow> [build_request text voice_name speaking_rate pitch])"
proof (cases "build_messages p text voice_name speaking_rate pitch")
  case (Inl e)
  then show ?thesis
    by (simp add: synthesize_speech_def)
next
  case (Inr request)
  with build_messages_Inr [OF Inr] show ?thesis
    by (simp add: synthesize_speech_def Let_def split: sum.splits)
qed

lemma good_provider_builds:
  "build_messages good_provider hello voice_name speaking_rate pitch =
     Inr (build_request hello voice_name speaking_rate pitch)"
  by (simp add: build_messages_def good_provider_def refuse_surrogates_def hello_def)

text \<open>
  Claim C2. The language code of the request that \<open>synthesize_speech\<close> sends is the
  first two hyphen-separated segments of the voice name joined by a hyphen, which is
  the name up to its second hyphen; for \<open>en-US-Wavenet-F\<close> it is \<open>en-US\<close>. (A request
  is sent when the library builds its messages.)
\<close>

theorem language_code_from_voice_name:
  "map req_language_code
       (synth_calls (snd (synthesize_speech p text voice_name speaking_rate pitch w))) =
     map req_language_code (synth_calls w)
       @ (case build_messages p text voice_name speaking_rate pitch of
            Inl e \<Rightarrow> []
          | Inr request \<Rightarrow> [py_join ''-'' (take 2 (py_split CHR ''-'' voice_name))])
   \<and> py_join ''-'' (take 2 (py_split CHR ''-'' voice_name)) = first_two_segments voice_name
   \<and> derive_language_code ''en-US-Wavenet-F'' = ''en-US''"
proof -
  have "derive_language_code ''en-US-Wavenet-F'' = ''en-US''"
    by (simp add: derive_language_code_eq first_two_segments_def)
  moreover have "py_join ''-'' (take 2 (py_split CHR ''-'' voice_name)) = first_two_segments voice_name"
    using derive_language_code_eq [of voice_name] by (simp add: derive_language_code_def)
  ultimately show ?thesis
    by (simp add: synth_calls_synthesize_speech build_request_def derive_language_code_def
        split: sum.splits)
qed

theorem language_code_from_voice_name_witness:
  "map req_language_code
       (synth_calls (snd (synthesize_speech good_provider hello ''en-US-Wavenet-F'' 1 0 world0))) =
     [''en-US'']
   \<and> first_two_segments ''en-US-Wavenet-F'' = ''en-US''"
proof -
  have f: "first_two_segments ''en-US-Wavenet-F'' = ''en-US''"
    by (simp add: first_two_segments_def)
  from language_code_from_voice_name [of good_provider hello "''en-US-Wavenet-F''" 1 0 world0] f
  show ?thesis
    by (simp add: good_provider_builds world0_def)
qed

lemma derive_short:
  assumes "length (py_split CHR ''-'' voice_name) \<le> 2"
  shows "derive_language_code voice_name = voice_name"
  using assms py_join_split [of "CHR ''-''" voice_name]
  by (simp add: derive_language_code_def)

text \<open>
  Claim C10. For a voice name with fewer than two hyphen-separated segments the derived
  language code is the whole name, and the request is built with it and sent. The
  derivation raises for no string: an exception before the call is one that a
  message constructor raised.
\<close>

theorem language_code_of_short_name:
  assumes "length (py_split CHR ''-'' voice_name) < 2"
  shows "derive_language_code voice_name = voice_name
       \<and> synth_calls (snd (synthesize_speech p text voice_name speaking_rate pitch w)) =
           synth_calls w @
             (case build_messages p text voice_name speaking_rate pitch of
                Inl e \<Rightarrow> []
              | Inr request \<Rightarrow> [build_request text voice_name speaking_rate pitch])
       \<and> req_language_code (build_request text voice_name speaking_rate pitch) = voice_name
       \<and> (\<forall>e. build_messages p text voice_name speaking_rate pitch = Inl e \<longrightarrow>
              synthesis_input_raises p text = Some e
            \<or> voice_selection_params_raises p voice_name voice_name = Some e
            \<or> audio_config_raises p MP3 speaking_rate pitch = Some e)"
proof -
  from assms have d: "derive_language_code voice_name = voice_name"
    by (intro derive_short) simp
  have "\<forall>e. build_messages p text voice_name speaking_rate pitch = Inl e \<longrightarrow>
              synthesis_input_raises p text = Some e
            \<or> voice_selection_params_raises p voice_name voice_name = Some e
            \<or> audio_config_raises p MP3 speaking_rate pitch = Some e"
    using build_messages_Inl [of p "text" voice_name speaking_rate pitch] d by simp
  with d show ?thesis
    by (simp add: synth_calls_synthesize_speech build_request_def)
qed

theorem language_code_of_short_name_witness:
  "length (py_split CHR ''-'' ''Aoede'') < 2
   \<and> derive_language_code ''Aoede'' = ''Aoede''
   \<and> synth_calls (snd (synthesize_speech good_provider hello ''Aoede'' 1 0 world0)) =
        [build_request hello ''Aoede'' 1 0]
   \<and> req_language_code (build_request hello ''Aoede'' 1 0) = ''Aoede''"
proof -
  have l: "length (py_split CHR ''-'' ''Aoede'') < 2"
    by simp
  from language_code_of_short_name [OF l, of good_provider hello 1 0 world0] l
  show ?thesis
    by (simp add: good_provider_builds world0_def)
qed


section \<open>The generate button, synthesis and the cache\<close>

lemma py_strip_empty_iff: "py_strip s = [] \<longleftrightarrow> (\<forall>c \<in> set s. py_isspace c)"
proof
  assume "py_strip s = []"
  then have "dropWhile py_isspace (rev (dropWhile py_isspace s)) = []"
    by (simp add: py_strip_def)
  then have a: "\<forall>c \<in> set (dropWhile py_isspace s). py_isspace c"
    by simp
  show "\<forall>c \<in> set s. py_isspace c"
  proof (cases "dropWhile py_isspace s")
    case Nil
    then show ?thesis by simp
  next
    case (Cons x xs)
    then have "\<not> py_isspace x" by (simp add: dropWhile_eq_Cons_conv)
    moreover from a Cons have "py_isspace x" by simp
    ultimately show ?thesis by simp
  qed
next
  assume a: "\<forall>c \<in> set s. py_isspace c"
  then have "dropWhile py_isspace s = []"
    by simp
  then show "py_strip s = []"
    by (simp add: py_strip_def del: dropWhile_eq_Nil_conv)
qed

text \<open>
  Claim C3. When the text is empty or holds only whitespace, the handler of the
  generate button shows the warning and does nothing else: no request is sent to the
  provider.
\<close>

theorem blank_text_is_rejected:
  assumes "\<forall>c \<in> set input_text. py_isspace c"
  shows "generate_audio p available_voices input_text selected_voice_name speaking_rate pitch w =
           w\<lparr>ui := ui w @ [St_warning ''Please enter some text to generate audio.'']\<rparr>
       \<and> synth_calls (generate_audio p available_voices input_text selected_voice_name
            speaking_rate pitch w) = synth_calls w
       \<and> list_calls (generate_audio p available_voices input_text selected_voice_name
            speaking_rate pitch w) = list_calls w"
proof -
  from assms have "py_strip input_text = []"
    by (simp add: py_strip_empty_iff)
  then show ?thesis
    by (simp add: generate_audio_def)
qed

theorem blank_text_is_rejected_witness:
  "py_isspace 32 \<and> py_isspace 9 \<and> py_isspace 10 \<and> py_isspace 8195 \<and> py_isspace 160
   \<and> generate_audio good_provider some_catalog spaces_only ''en-US-Wavenet-F'' 1 0 world0 =
       \<lparr> list_calls = 0, synth_calls = [],
         ui = [St_warning ''Please enter some text to generate audio.''],
         voices_cache = None \<rparr>"
proof -
  have s: "py_isspace 32 \<and> py_isspace 9 \<and> py_isspace 10 \<and> py_isspace 8195 \<and> py_isspace 160"
    by (simp add: py_isspace_def)
  then have a: "\<forall>c \<in> set spaces_only. py_isspace c"
    by (simp add: spaces_only_def)
  from blank_text_is_rejected [OF a, of good_provider some_catalog "''en-US-Wavenet-F''" 1 0 world0] s
  show ?thesis
    by (simp add: world0_def)
qed





text \<open>
  Claim C5 as stated fails: a request with a text that is not blank, a voice of the
  catalog, rate 1 and pitch 0 is valid, but its text holds a lone surrogate, the
  library refuses to build the synthesis input, and no provider call is issued.
\<close>

theorem refused_request_sends_nothing_counterexample:
  "py_strip lone_surrogate \<noteq> []
   \<and> in_catalog (fst (get_voices good_provider world0)) ''en-US-Wavenet-F''
   \<and> rate_in_range 1
   \<and> pitch_in_range 0
   \<and> synthesize_speech good_provider lone_surrogate ''en-US-Wavenet-F'' 1 0 world0 =
       (None, \<lparr> list_calls = 0, synth_calls = [],
                ui = [St_error_exn ''API call failed: '' (MessageError ''surrogates not allowed'')],
                voices_cache = None \<rparr>)"
proof -
  have "py_strip lone_surrogate \<noteq> []"
    by (simp add: py_strip_def py_isspace_def lone_surrogate_def)
  moreover have "in_catalog (fst (get_voices good_provider world0)) ''en-US-Wavenet-F''"
    by (simp add: in_catalog_def good_catalog)
  moreover have "rate_in_range 1" "pitch_in_range 0"
    by (simp_all add: rate_in_range_def pitch_in_range_def)
  moreover have "build_messages good_provider lone_surrogate ''en-US-Wavenet-F'' 1 0 =
     Inl (MessageError ''surrogates not allowed'')"
    by (simp add: build_messages_def good_provider_def refuse_surrogates_def lone_surrogate_def)
  ultimately show ?thesis
    by (simp add: synthesize_speech_refused world0_def)
qed

text \<open>
  Claim C5, as amended. When the library builds the three messages of a request,
  \<open>synthesize_speech\<close> sends exactly one request, with the given text, voice name, rate
  and pitch; it returns the provider's bytes as they are when the call answers, and
  \<open>None\<close> after \<open>st.error\<close> when the call raises. The request it builds has the MP3
  encoding, and in no case is more than one request sent.
\<close>

theorem synthesize_speech_single_call:
  "(synthesis_input_raises p text = None
      \<and> voice_selection_params_raises p voice_name (derive_language_code voice_name) = None
      \<and> audio_config_raises p MP3 speaking_rate pitch = None \<longrightarrow>
      synth_calls (snd (synthesize_speech p text voice_name speaking_rate pitch w)) =
        synth_calls w @ [build_request text voice_name speaking_rate pitch]
      \<and> (case synthesize_response p (length (synth_calls w))
                (build_request text voice_name speaking_rate pitch) of
           Inr audio_content \<Rightarrow>
             synthesize_speech p text voice_name speaking_rate pitch w =
               (Some audio_content,
                w\<lparr>synth_calls := synth_calls w @ [build_request text voice_name speaking_rate pitch]\<rparr>)
         | Inl e \<Rightarrow>
             synthesize_speech p text voice_name speaking_rate pitch w =
               (None,
                w\<lparr>synth_calls := synth_calls w @ [build_request text voice_name speaking_rate pitch],
                  ui := ui w @ [St_error_exn ''API call failed: '' e]\<rparr>)))
   \<and> req_audio_encoding (build_request text voice_name speaking_rate pitch) = MP3
   \<and> req_speaking_rate (build_request text voice_name speaking_rate pitch) = speaking_rate
   \<and> req_pitch (build_request text voice_name speaking_rate pitch) = pitch
   \<and> req_name (build_request text voice_name speaking_rate pitch) = voice_name
   \<and> req_text (build_request text voice_name speaking_rate pitch) = text
   \<and> length (synth_calls (snd (synthesize_speech p text voice_name speaking_rate pitch w)))
       \<le> Suc (length (synth_calls w))"
proof (intro conjI impI)
  assume a: "synthesis_input_raises p text = None
      \<and> voice_selection_params_raises p voice_name (derive_language_code voice_name) = None
      \<and> audio_config_raises p MP3 speaking_rate pitch = None"
  then have b: "build_messages p text voice_name speaking_rate pitch =
           Inr (build_request text voice_name speaking_rate pitch)"
    by (simp add: build_messages_built)
  then show "synth_calls (snd (synthesize_speech p text voice_name speaking_rate pitch w)) =
        synth_calls w @ [build_request text voice_name speaking_rate pitch]"
    by (simp add: synth_calls_synthesize_speech)
  from b show "case synthesize_response p (length (synth_calls w))
                (build_request text voice_name speaking_rate pitch) of
           Inr audio_content \<Rightarrow>
             synthesize_speech p text voice_name speaking_rate pitch w =
               (Some audio_content,
                w\<lparr>synth_calls := synth_calls w @ [build_request text voice_name speaking_rate pitch]\<rparr>)
         | Inl e \<Rightarrow>
             synthesize_speech p text voice_name speaking_rate pitch w =
               (None,
                w\<lparr>synth_calls := synth_calls w @ [build_request text voice_name speaking_rate pitch],
                  ui := ui w @ [St_error_exn ''API call failed: '' e]\<rparr>)"
    by (simp add: synthesize_speech_def Let_def split: sum.splits)
next
  show "length (synth_calls (snd (synthesize_speech p text voice_name speaking_rate pitch w)))
       \<le> Suc (length (synth_calls w))"
    by (simp add: synth_calls_synthesize_speech split: sum.splits)
qed (simp_all add: build_request_def)

theorem synthesize_speech_single_call_witness:
  "synthesis_input_raises good_provider hello = None
   \<and> voice_selection_params_raises good_provider ''en-US-Wavenet-F'' ''en-US'' = None
   \<and> audio_config_raises good_provider MP3 1 0 = None
   \<and> synthesize_speech good_provider hello ''en-US-Wavenet-F'' 1 0 world0 =
       (Some [73, 68, 51],
        \<lparr> list_calls = 0,
          synth_calls = [\<lparr> req_text = hello, req_name = ''en-US-Wavenet-F'',
                           req_language_code = ''en-US'', req_audio_encoding = MP3,
                           req_speaking_rate = 1, req_pitch = 0 \<rparr>],
          ui = [], voices_cache = None \<rparr>)
   \<and> synthesize_speech down_provider hello ''en-US-Wavenet-F'' 1 0 world0 =
       (None,
        \<lparr> list_calls = 0,
          synth_calls = [\<lparr> req_text = hello, req_name = ''en-US-Wavenet-F'',
                           req_language_code = ''en-US'', req_audio_encoding = MP3,
                           req_speaking_rate = 1, req_pitch = 0 \<rparr>],
          ui = [St_error_exn ''API call failed: '' (ProviderError ''503 unavailable'')],
          voices_cache = None \<rparr>)"
proof -
  have d: "derive_language_code ''en-US-Wavenet-F'' = ''en-US''"
    by (simp add: derive_language_code_eq first_two_segments_def)
  have g: "synthesis_input_raises good_provider hello = None
      \<and> voice_selection_params_raises good_provider ''en-US-Wavenet-F'' ''en-US'' = None
      \<and> audio_config_raises good_provider MP3 1 0 = None"
    by (simp add: good_provider_def refuse_surrogates_def hello_def)
  have h: "synthesis_input_raises down_provider hello = None
      \<and> voice_selection_params_raises down_provider ''en-US-Wavenet-F'' ''en-US'' = None
      \<and> audio_config_raises down_provider MP3 1 0 = None"
    by (simp add: down_provider_def good_provider_def refuse_surrogates_def hello_def)
  have r: "synthesize_response good_provider 0 (build_request hello ''en-US-Wavenet-F'' 1 0)
         = Inr [73, 68, 51]"
      "synthesize_response down_provider 0 (build_request hello ''en-US-Wavenet-F'' 1 0)
         = Inl (ProviderError ''503 unavailable'')"
    by (simp_all add: good_provider_def down_provider_def)
  from synthesize_speech_single_call [of good_provider hello "''en-US-Wavenet-F''" 1 0 world0]
       g r(1)
  have 1: "synthesize_speech good_provider hello ''en-US-Wavenet-F'' 1 0 world0 =
       (Some [73, 68, 51],
        \<lparr> list_calls = 0,
          synth_calls = [\<lparr> req_text = hello, req_name = ''en-US-Wavenet-F'',
                           req_language_code = ''en-US'', req_audio_encoding = MP3,
                           req_speaking_rate = 1, req_pitch = 0 \<rparr>],
          ui = [], voices_cache = None \<rparr>)"
    by (simp add: d world0_def build_request_def)
  from synthesize_speech_single_call [of down_provider hello "''en-US-Wavenet-F''" 1 0 world0]
       h r(2)
  have 2: "synthesize_speech down_provider hello ''en-US-Wavenet-F'' 1 0 world0 =
       (None,
        \<lparr> list_calls = 0,
          synth_calls = [\<lparr> req_text = hello, req_name = ''en-US-Wavenet-F'',
                           req_language_code = ''en-US'', req_audio_encoding = MP3,
                           req_speaking_rate = 1, req_pitch = 0 \<rparr>],
          ui = [St_error_exn ''API call failed: '' (ProviderError ''503 unavailable'')],
          voices_cache = None \<rparr>)"
    by (simp add: d world0_def build_request_def)
  from g 1 2 show ?thesis
    by (intro conjI) simp_all
qed

lemma list_calls_get_voices: "list_calls (snd (get_voices p w)) = Suc (list_calls w)"
  by (simp add: get_voices_def Let_def split: sum.splits)

lemma get_voices_cached_fills:
  assumes "get_voices_cached p w = (c, w1)"
  shows "voices_cache w1 = Some c"
  using assms by (auto simp: get_voices_cached_def split: option.splits prod.splits)

lemma get_voices_cached_hit:
  "voices_cache w = Some c \<Longrightarrow> get_voices_cached p w = (c, w)"
  by (simp add: get_voices_cached_def)

lemma fetch_again_hit:
  "voices_cache w = Some c \<Longrightarrow> fetch_again p n w = w"
  by (induction n) (simp_all add: get_voices_cached_hit)

text \<open>
  Claim C8. After one request for the voice list, every later request returns the
  same dictionary and leaves the process as it is, so the provider is not called
  again; the first request of a process calls it once.
\<close>

theorem cached_catalog_is_reused:
  assumes "get_voices_cached p w = (c, w1)"
  shows "fetch_again p n w1 = w1
       \<and> get_voices_cached p (fetch_again p n w1) = (c, w1)
       \<and> list_calls (snd (get_voices_cached p (fetch_again p n w1))) = list_calls w1
       \<and> (voices_cache w = None \<longrightarrow> list_calls w1 = Suc (list_calls w))"
proof -
  from get_voices_cached_fills [OF assms] have f: "voices_cache w1 = Some c" .
  have 1: "fetch_again p n w1 = w1"
    using f by (rule fetch_again_hit)
  have 2: "get_voices_cached p w1 = (c, w1)"
    using f by (rule get_voices_cached_hit)
  have 3: "voices_cache w = None \<longrightarrow> list_calls w1 = Suc (list_calls w)"
  proof
    assume n: "voices_cache w = None"
    obtain c0 w0 where g: "get_voices p w = (c0, w0)"
      by (cases "get_voices p w")
    with n assms have "w1 = w0\<lparr>voices_cache := Some c0\<rparr>"
      by (auto simp: get_voices_cached_def)
    moreover from g list_calls_get_voices [of p w] have "list_calls w0 = Suc (list_calls w)"
      by simp
    ultimately show "list_calls w1 = Suc (list_calls w)"
      by simp
  qed
  from 1 2 3 show ?thesis
    by simp
qed

theorem cached_catalog_is_reused_witness:
  "get_voices_cached changing_provider world0 =
     ([(''en-US'', [(''en-US-Wavenet-F'', ''en-US-Wavenet-F (Female)'')])],
      \<lparr> list_calls = 1, synth_calls = [], ui = [],
        voices_cache = Some [(''en-US'', [(''en-US-Wavenet-F'', ''en-US-Wavenet-F (Female)'')])] \<rparr>)
   \<and> get_voices_cached changing_provider
        (fetch_again changing_provider 3
          \<lparr> list_calls = 1, synth_calls = [], ui = [],
            voices_cache = Some [(''en-US'', [(''en-US-Wavenet-F'', ''en-US-Wavenet-F (Female)'')])] \<rparr>) =
     ([(''en-US'', [(''en-US-Wavenet-F'', ''en-US-Wavenet-F (Female)'')])],
      \<lparr> list_calls = 1, synth_calls = [], ui = [],
        voices_cache = Some [(''en-US'', [(''en-US-Wavenet-F'', ''en-US-Wavenet-F (Female)'')])] \<rparr>)
   \<and> fst (get_voices changing_provider
        \<lparr> list_calls = 1, synth_calls = [], ui = [], voices_cache = None \<rparr>) =
     [(''de-DE'', [(''de-DE-Wavenet-B'', ''de-DE-Wavenet-B (Male)'')])]"
proof -
  have g: "get_voices_cached changing_provider world0 =
     ([(''en-US'', [(''en-US-Wavenet-F'', ''en-US-Wavenet-F (Female)'')])],
      \<lparr> list_calls = 1, synth_calls = [], ui = [],
        voices_cache = Some [(''en-US'', [(''en-US-Wavenet-F'', ''en-US-Wavenet-F (Female)'')])] \<rparr>)"
    by (simp add: get_voices_cached_def get_voices_def get_voices_try_def add_voice_def
        to_SsmlVoiceGender_def display_name_def ascii_upper_def ascii_lower_def
        changing_provider_def good_provider_def world0_def wavenet_f_def)
  have h: "fst (get_voices changing_provider
        \<lparr> list_calls = 1, synth_calls = [], ui = [], voices_cache = None \<rparr>) =
     [(''de-DE'', [(''de-DE-Wavenet-B'', ''de-DE-Wavenet-B (Male)'')])]"
    by (simp add: get_voices_def get_voices_try_def add_voice_def
        to_SsmlVoiceGender_def display_name_def ascii_upper_def ascii_lower_def
        changing_provider_def good_provider_def wavenet_b_def)
  from cached_catalog_is_reused [OF g, of 3] g h show ?thesis
    by (simp add: get_voices_cached_def)
qed

end
